theory Spec2Isabelle
  imports Complex_Main
begin

section \<open>JavaScript values as the handlers see them\<close>

text \<open>
  The two handlers of \<^verbatim>\<open>server.js\<close> receive their inputs from Express:
  \<^verbatim>\<open>req.query\<close> (built by the query-string parser: strings, arrays and nested
  objects), \<^verbatim>\<open>req.body\<close> (built by \<^verbatim>\<open>express.json()\<close>: any JSON value) and
  \<^verbatim>\<open>req.params.id\<close> (a string). The handlers test these values for truthiness, ask
  for \<^verbatim>\<open>typeof\<close>, and call string methods on them, so the values are modelled
  with their JavaScript type.

  A \<^typ>\<open>char\<close> stands for one UTF-16 code unit below 256; every literal of the
  source fits (the accented letters of the Portuguese messages are written
  \<open>CHR 0xE1\<close> and so on). Numbers only ever have their truthiness observed, so a
  \<^typ>\<open>real\<close> stands for the double (JSON has no NaN, and an infinite double is
  truthy like every other non-zero number).
\<close>

datatype jsval =
    JUndefined
  | JNull
  | JBool bool
  | JNum real
  | JStr string
  | JArr "jsval list"
  | JObj "(string \<times> jsval) list"

datatype js_error =
    TypeError      \<comment> \<open>thrown by the language: a method called on a value that lacks it\<close>
  | DriverError    \<comment> \<open>a rejection of the mysql2 driver\<close>

text \<open>ToBoolean, the test behind \<^verbatim>\<open>if (x)\<close> and \<^verbatim>\<open>!x\<close>.\<close>

fun truthy :: "jsval \<Rightarrow> bool" where
  "truthy JUndefined = False"
| "truthy JNull = False"
| "truthy (JBool b) = b"
| "truthy (JNum x) = (x \<noteq> 0)"
| "truthy (JStr s) = (s \<noteq> [])"
| "truthy (JArr xs) = True"
| "truthy (JObj kvs) = True"

fun typeof :: "jsval \<Rightarrow> string" where
  "typeof JUndefined = ''undefined''"
| "typeof JNull = ''object''"
| "typeof (JBool b) = ''boolean''"
| "typeof (JNum x) = ''number''"
| "typeof (JStr s) = ''string''"
| "typeof (JArr xs) = ''object''"
| "typeof (JObj kvs) = ''object''"

text \<open>
  Reading a property, as the destructuring \<^verbatim>\<open>const { a, b } = obj\<close> does: a missing
  property is \<^verbatim>\<open>undefined\<close>. None of the property names the program reads
  (\<^verbatim>\<open>startDate\<close>, \<^verbatim>\<open>endDate\<close>, \<^verbatim>\<open>pdv\<close>, \<^verbatim>\<open>status\<close>, \<^verbatim>\<open>delivererName\<close>,
  \<^verbatim>\<open>affectedRows\<close>) is a built-in property of a string, a number, a boolean or an
  array, so these give \<^verbatim>\<open>undefined\<close> too. Destructuring \<^verbatim>\<open>undefined\<close> or
  \<^verbatim>\<open>null\<close> throws; \<open>nullish\<close> is the test for that.
\<close>

fun js_get :: "jsval \<Rightarrow> string \<Rightarrow> jsval" where
  "js_get (JObj kvs) k = (case map_of kvs k of Some v \<Rightarrow> v | None \<Rightarrow> JUndefined)"
| "js_get v k = JUndefined"

fun nullish :: "jsval \<Rightarrow> bool" where
  "nullish JUndefined = True"
| "nullish JNull = True"
| "nullish v = False"

subsection \<open>String methods\<close>

text \<open>
  \<^verbatim>\<open>String.prototype.toUpperCase\<close> on the modelled code units, one unit at a time
  (the Unicode mapping has no context rule for a unit below 256): the letters a to z
  go to A to Z, the accented letters \<open>0xE0\<close> to \<open>0xFE\<close> (the division sign
  \<open>0xF7\<close> apart) go to \<open>0xC0\<close> to \<open>0xDE\<close>, the sharp s \<open>0xDF\<close> becomes the two
  units \<open>SS\<close>, and every other unit stays, with two exceptions that the model cannot
  write: the micro sign \<open>0xB5\<close> and the y with diaeresis \<open>0xFF\<close> have their upper
  case beyond 255 (\<open>U+039C\<close> and \<open>U+0178\<close>) and are left as they are here. Neither
  image is \<open>S\<close> or \<open>N\<close>, so every test the program makes on the result comes out
  as in JavaScript for every string the model can write. A string with a code unit
  from 256 on is outside the model; one of them, the long s \<open>U+017F\<close>, has the upper
  case \<open>S\<close> and is accepted by the program as a status.
\<close>

definition latin1_lower :: string where
  "latin1_lower =
     [CHR 0xE0, CHR 0xE1, CHR 0xE2, CHR 0xE3, CHR 0xE4, CHR 0xE5, CHR 0xE6, CHR 0xE7,
      CHR 0xE8, CHR 0xE9, CHR 0xEA, CHR 0xEB, CHR 0xEC, CHR 0xED, CHR 0xEE, CHR 0xEF,
      CHR 0xF0, CHR 0xF1, CHR 0xF2, CHR 0xF3, CHR 0xF4, CHR 0xF5, CHR 0xF6, CHR 0xF8,
      CHR 0xF9, CHR 0xFA, CHR 0xFB, CHR 0xFC, CHR 0xFD, CHR 0xFE]"

definition latin1_upper :: string where
  "latin1_upper =
     [CHR 0xC0, CHR 0xC1, CHR 0xC2, CHR 0xC3, CHR 0xC4, CHR 0xC5, CHR 0xC6, CHR 0xC7,
      CHR 0xC8, CHR 0xC9, CHR 0xCA, CHR 0xCB, CHR 0xCC, CHR 0xCD, CHR 0xCE, CHR 0xCF,
      CHR 0xD0, CHR 0xD1, CHR 0xD2, CHR 0xD3, CHR 0xD4, CHR 0xD5, CHR 0xD6, CHR 0xD8,
      CHR 0xD9, CHR 0xDA, CHR 0xDB, CHR 0xDC, CHR 0xDD, CHR 0xDE]"

definition upper_unit :: "char \<Rightarrow> string" where
  "upper_unit c =
     (if c = CHR 0xDF then ''SS''
      else
        case map_of (zip (''abcdefghijklmnopqrstuvwxyz'' @ latin1_lower)
                         (''ABCDEFGHIJKLMNOPQRSTUVWXYZ'' @ latin1_upper)) c of
          Some u \<Rightarrow> [u]
        | None \<Rightarrow> [c])"

definition toUpperCase :: "string \<Rightarrow> string" where
  "toUpperCase s = concat (map upper_unit s)"

text \<open>
  \<^verbatim>\<open>String.prototype.trim\<close> strips white space and line terminators from both
  ends: below 256 these are TAB, LF, VT, FF, CR, SPACE and the no-break space.
\<close>

definition is_white :: "char \<Rightarrow> bool" where
  "is_white c =
     (c \<in> set [CHR 0x09, CHR 0x0A, CHR 0x0B, CHR 0x0C, CHR 0x0D, CHR 0x20, CHR 0xA0])"

definition trim :: "string \<Rightarrow> string" where
  "trim s = rev (dropWhile is_white (rev (dropWhile is_white s)))"

text \<open>
  The method calls \<^verbatim>\<open>v.toUpperCase()\<close> and \<^verbatim>\<open>v.trim()\<close> on a value: only a
  string has the method. On any other value the call throws a \<^verbatim>\<open>TypeError\<close>
  (a JSON object cannot hold a function either).
\<close>

fun call_toUpperCase :: "jsval \<Rightarrow> js_error + string" where
  "call_toUpperCase (JStr s) = Inr (toUpperCase s)"
| "call_toUpperCase v = Inl TypeError"

fun call_trim :: "jsval \<Rightarrow> js_error + string" where
  "call_trim (JStr s) = Inr (trim s)"
| "call_trim v = Inl TypeError"

section \<open>The connection pool and what a request leaves behind\<close>

text \<open>
  \<^verbatim>\<open>pool\<close> is the mysql2 connection pool, a library outside the repository. The
  handlers use two of its methods, taken here as parameters over a database state
  \<open>'db\<close>:
  \<^item> \<^verbatim>\<open>pool.getConnection()\<close> resolves with a connection (\<open>None\<close>) or rejects
    (\<open>Some err\<close>);
  \<^item> \<^verbatim>\<open>pool.execute(sql, params)\<close> rejects (\<open>Inl err\<close>) or resolves with an array
    whose first element is the result (the rows of a SELECT, the result header of an
    UPDATE), leaving the database in a new state.
\<close>

record 'db pool =
  getConnection :: "'db \<Rightarrow> js_error option"
  execute :: "string \<Rightarrow> jsval list \<Rightarrow> 'db \<Rightarrow> js_error + jsval \<times> 'db"

text \<open>
  What the program asks of the pool, in order: the acquisition of a connection, its
  release, and each statement sent with its bound parameters.
\<close>

datatype event =
    GetConnection
  | Release
  | Execute string "jsval list"

text \<open>
  How a request ends: \<^verbatim>\<open>res.status(c).json(v)\<close> (\<^verbatim>\<open>res.json(v)\<close> is status 200),
  an exception that escapes the \<^verbatim>\<open>async\<close> handler (its promise rejects and the
  program itself sends nothing), no route of the program for the request (Express
  answers on its own), or a body that \<^verbatim>\<open>express.json()\<close> refuses (Express answers
  with the parser's error, 400 for a body that is not JSON).
\<close>

datatype reply =
    Responded nat jsval
  | Rejected js_error
  | NoRoute
  | BodyRejected

record 'db outcome =
  reply :: reply
  events :: "event list"
  final :: "'db"

definition message :: "string \<Rightarrow> jsval" where
  "message m = JObj [(''message'', JStr m)]"

definition respond :: "nat \<Rightarrow> jsval \<Rightarrow> event list \<Rightarrow> 'db \<Rightarrow> 'db outcome" where
  "respond code v evs db = \<lparr>reply = Responded code v, events = evs, final = db\<rparr>"

definition throw :: "js_error \<Rightarrow> event list \<Rightarrow> 'db \<Rightarrow> 'db outcome" where
  "throw e evs db = \<lparr>reply = Rejected e, events = evs, final = db\<rparr>"

section \<open>The health-check middleware (server.js, lines 28 to 38)\<close>

text \<open>
  \<^verbatim>\<open>app.use(async (req, res, next) => { try { const connection = await
  pool.getConnection(); connection.release(); next(); } catch (err) { ...
  res.status(500).json({ message: ... }); } })\<close>

  \<open>next\<close> is the rest of the chain, run on the database as the middleware leaves it.
  The \<^verbatim>\<open>console.error\<close> lines of the program are not modelled.
\<close>

definition connection_failed :: string where
  "connection_failed =
     ''Erro interno do servidor: falha na conex'' @ [CHR 0xE3] @ ''o com o banco de dados.''"

definition health_check :: "'db pool \<Rightarrow> ('db \<Rightarrow> 'db outcome) \<Rightarrow> 'db \<Rightarrow> 'db outcome" where
  "health_check pool next db =
     (case getConnection pool db of
        None \<Rightarrow> (let out = next db in out\<lparr>events := [GetConnection, Release] @ events out\<rparr>)
      | Some err \<Rightarrow> respond 500 (message connection_failed) [GetConnection] db)"

section \<open>GET /api/deliveries (server.js, lines 51 to 93)\<close>

definition invalid_status_filter :: string where
  "invalid_status_filter =
     ''Status inv'' @ [CHR 0xE1] @ ''lido. Use '' @ [CHR 0x22] @ ''S'' @ [CHR 0x22]
       @ '' para entregue ou '' @ [CHR 0x22] @ ''N'' @ [CHR 0x22] @ '' para n''
       @ [CHR 0xE3] @ ''o entregue.''"

text \<open>
  Lines 86 to 92: \<^verbatim>\<open>const [rows] = await pool.execute(query, params);
  res.json(rows)\<close>, and the \<^verbatim>\<open>catch\<close> that answers 500.
\<close>

definition run_select :: "'db pool \<Rightarrow> string \<Rightarrow> jsval list \<Rightarrow> 'db \<Rightarrow> 'db outcome" where
  "run_select pool query params db =
     (case execute pool query params db of
        Inr (rows, db') \<Rightarrow> respond 200 rows [Execute query params] db'
      | Inl error \<Rightarrow>
          respond 500 (message ''Erro interno do servidor ao buscar entregas.'')
            [Execute query params] db)"

text \<open>
  Lines 52 to 84. \<^verbatim>\<open>req.query\<close> is always an object in Express; \<open>req_query\<close> is
  the list of its properties. \<open>query\<close> and \<open>params\<close> grow as the source's
  \<^verbatim>\<open>query +=\<close> and \<^verbatim>\<open>params.push\<close> do; the numbered names are the successive
  values of the two variables.
\<close>

definition get_deliveries :: "'db pool \<Rightarrow> (string \<times> jsval) list \<Rightarrow> 'db \<Rightarrow> 'db outcome" where
  "get_deliveries pool req_query db =
     (let startDate = js_get (JObj req_query) ''startDate'';
          endDate = js_get (JObj req_query) ''endDate'';
          pdv = js_get (JObj req_query) ''pdv'';
          status = js_get (JObj req_query) ''status'';
          query0 = ''SELECT * FROM entregas WHERE 1=1'';
          params0 = [];
          (query1, params1) =
            (if truthy startDate then (query0 @ '' AND EMISSAO >= ?'', params0 @ [startDate])
             else (query0, params0));
          (query2, params2) =
            (if truthy endDate then (query1 @ '' AND EMISSAO <= ?'', params1 @ [endDate])
             else (query1, params1));
          (query3, params3) =
            (if truthy pdv then (query2 @ '' AND (CAIXA = ? OR COO = ?)'', params2 @ [pdv, pdv])
             else (query2, params2))
      in
        if truthy status then
          (case call_toUpperCase status of
             Inl e \<Rightarrow> throw e [] db
           | Inr upper \<Rightarrow>
               if upper = ''S'' \<or> upper = ''N'' then
                 run_select pool (query3 @ '' AND ENTREGUE = ?'') (params3 @ [JStr upper]) db
               else respond 400 (message invalid_status_filter) [] db)
        else run_select pool query3 params3 db)"

section \<open>PUT /api/deliveries/:id/status (server.js, lines 104 to 131)\<close>

definition status_required :: string where
  "status_required =
     ''Status '' @ [CHR 0xE9] @ '' obrigat'' @ [CHR 0xF3] @ ''rio e deve ser '' @ [CHR 0x22]
       @ ''S'' @ [CHR 0x22] @ '' ou '' @ [CHR 0x22] @ ''N'' @ [CHR 0x22] @ ''.''"

definition name_required :: string where
  "name_required =
     ''Nome do entregador '' @ [CHR 0xE9] @ '' obrigat'' @ [CHR 0xF3] @ ''rio.''"

definition not_found :: "string \<Rightarrow> string" where
  "not_found id' = ''Entrega com ID '' @ id' @ '' n'' @ [CHR 0xE3] @ ''o encontrada.''"

definition updated :: "string \<Rightarrow> string \<Rightarrow> string \<Rightarrow> string" where
  "updated id' flag name =
     ''Status da entrega '' @ id' @ '' atualizado para '' @ [CHR 0x22] @ flag @ [CHR 0x22]
       @ '' e entregador definido como '' @ [CHR 0x22] @ name @ [CHR 0x22] @ ''.''"

definition update_sql :: string where
  "update_sql = ''UPDATE entregas SET ENTREGUE = ?, NOME = ? WHERE ID_ENTREGA = ?''"

definition update_failed :: string where
  "update_failed = ''Erro interno do servidor ao atualizar status da entrega.''"

text \<open>
  Lines 116 to 130, entered once both checks have passed: the one UPDATE, then the
  test \<^verbatim>\<open>result.affectedRows === 0\<close>. Everything here is inside the \<^verbatim>\<open>try\<close>, so
  a rejection of the driver, and a result that has no properties to read, end in the
  500 of the \<^verbatim>\<open>catch\<close>.
\<close>

definition run_update :: "'db pool \<Rightarrow> string \<Rightarrow> string \<Rightarrow> string \<Rightarrow> 'db \<Rightarrow> 'db outcome" where
  "run_update pool id' flag name db =
     (let params = [JStr flag, JStr name, JStr id'] in
      case execute pool update_sql params db of
        Inl error \<Rightarrow> respond 500 (message update_failed) [Execute update_sql params] db
      | Inr (result, db') \<Rightarrow>
          if nullish result then
            respond 500 (message update_failed) [Execute update_sql params] db'
          else if js_get result ''affectedRows'' = JNum 0 then
            respond 404 (message (not_found id')) [Execute update_sql params] db'
          else
            respond 200 (message (updated id' flag name)) [Execute update_sql params] db')"

text \<open>
  Lines 105 to 114: the destructuring of \<^verbatim>\<open>req.body\<close> and the two checks, in the
  source's order and with the source's short-circuit evaluation of \<^verbatim>\<open>||\<close> and
  \<^verbatim>\<open>&&\<close>: \<^verbatim>\<open>status.toUpperCase()\<close> is called once \<^verbatim>\<open>!status\<close> is false,
  \<^verbatim>\<open>delivererName.trim()\<close> once \<^verbatim>\<open>typeof delivererName\<close> is \<^verbatim>\<open>'string'\<close>.
  \<^verbatim>\<open>req.body\<close> is what \<^verbatim>\<open>express.json()\<close> parsed: an object or an array, and
  for a request without a JSON body \<^verbatim>\<open>{}\<close> in Express 4 and \<^verbatim>\<open>undefined\<close> in
  Express 5, where the destructuring throws.
\<close>

definition put_delivery_status :: "'db pool \<Rightarrow> string \<Rightarrow> jsval \<Rightarrow> 'db \<Rightarrow> 'db outcome" where
  "put_delivery_status pool id' body db =
     (if nullish body then throw TypeError [] db
      else
        let status = js_get body ''status'';
            delivererName = js_get body ''delivererName''
        in
          if \<not> truthy status then respond 400 (message status_required) [] db
          else
            (case call_toUpperCase status of
               Inl e \<Rightarrow> throw e [] db
             | Inr upper \<Rightarrow>
                 if upper \<noteq> ''S'' \<and> upper \<noteq> ''N'' then
                   respond 400 (message status_required) [] db
                 else if \<not> truthy delivererName then
                   respond 400 (message name_required) [] db
                 else if typeof delivererName \<noteq> ''string'' then
                   respond 400 (message name_required) [] db
                 else
                   (case call_trim delivererName of
                      Inl e \<Rightarrow> throw e [] db
                    | Inr trimmed \<Rightarrow>
                        if trimmed = '''' then respond 400 (message name_required) [] db
                        else run_update pool id' upper trimmed db)))"

section \<open>The application: body parser, health check, router\<close>

text \<open>
  The chain of the program in the order of registration: \<^verbatim>\<open>app.use(express.json())\<close>
  (line 14), the health check (line 28), the two routes (lines 51 and 104).

  A request is, once its body has been read, one of the two routes with the inputs
  its handler reads, or a method and path the program has no route for; or it is a
  request, of any method and path, whose body \<^verbatim>\<open>express.json()\<close> cannot parse.
  The parser is a library: what it makes of the bytes of a body is taken as given.
\<close>

datatype request =
    Get_deliveries "(string \<times> jsval) list" \<comment> \<open>the properties of \<^verbatim>\<open>req.query\<close>\<close>
  | Put_delivery_status string jsval            \<comment> \<open>\<^verbatim>\<open>req.params.id\<close> and \<^verbatim>\<open>req.body\<close>\<close>
  | Unrouted
  | Unparsable

text \<open>
  \<^verbatim>\<open>express.json()\<close>: a body it cannot parse ends the request with the parser's
  error, and nothing registered after it runs; any other request goes on.
\<close>

definition express_json :: "request \<Rightarrow> ('db \<Rightarrow> 'db outcome) \<Rightarrow> 'db \<Rightarrow> 'db outcome" where
  "express_json req next db =
     (case req of
        Unparsable \<Rightarrow> \<lparr>reply = BodyRejected, events = [], final = db\<rparr>
      | _ \<Rightarrow> next db)"

text \<open>
  The router. A request with an unparsable body never gets here, and \<open>route\<close> says
  nothing about it.
\<close>

fun route :: "'db pool \<Rightarrow> request \<Rightarrow> 'db \<Rightarrow> 'db outcome" where
  "route pool (Get_deliveries req_query) db = get_deliveries pool req_query db"
| "route pool (Put_delivery_status id' body) db = put_delivery_status pool id' body db"
| "route pool Unrouted db = \<lparr>reply = NoRoute, events = [], final = db\<rparr>"

definition app :: "'db pool \<Rightarrow> request \<Rightarrow> 'db \<Rightarrow> 'db outcome" where
  "app pool req db = express_json req (health_check pool (route pool req)) db"

section \<open>The database behind the pool\<close>

text \<open>
  The table \<^verbatim>\<open>entregas\<close> lives in a MySQL server outside the repository; its
  schema is not part of the source. The model keeps the columns the program names,
  as the values the driver hands back, over a key type \<open>'k\<close> for \<^verbatim>\<open>ID_ENTREGA\<close>.
\<close>

record 'k entrega =
  ID_ENTREGA :: "'k"
  EMISSAO :: jsval
  CAIXA :: jsval
  COO :: jsval
  ENTREGUE :: jsval
  NOME :: jsval

record 'k database =
  up :: bool                      \<comment> \<open>whether the server can be reached\<close>
  entregas :: "'k entrega list"

text \<open>
  The one UPDATE of the program. How MySQL compares the bound parameter with the key
  column is left open: \<open>same_id\<close> is any relation between the parameter and a key.
\<close>

definition matching :: "(jsval \<Rightarrow> 'k \<Rightarrow> bool) \<Rightarrow> jsval \<Rightarrow> 'k entrega list \<Rightarrow> 'k entrega list" where
  "matching same_id i rows = filter (\<lambda>r. same_id i (ID_ENTREGA r)) rows"

definition update_rows ::
  "(jsval \<Rightarrow> 'k \<Rightarrow> bool) \<Rightarrow> jsval \<Rightarrow> jsval \<Rightarrow> jsval \<Rightarrow> 'k entrega list \<Rightarrow> 'k entrega list" where
  "update_rows same_id flag name i rows =
     map (\<lambda>r. if same_id i (ID_ENTREGA r) then r\<lparr>ENTREGUE := flag, NOME := name\<rparr> else r) rows"

text \<open>
  The result header of an UPDATE. mysql2 connects with the \<^verbatim>\<open>FOUND_ROWS\<close> client
  flag unless the \<^verbatim>\<open>flags\<close> option removes it, and \<^verbatim>\<open>createPool\<close> (lines 17 to
  25) passes no flags: \<^verbatim>\<open>affectedRows\<close> counts the rows the WHERE clause matched,
  changed or not. The header's other fields are never read by the program.
\<close>

definition result_header :: "nat \<Rightarrow> jsval" where
  "result_header n = JObj [(''affectedRows'', JNum (real n))]"

text \<open>
  \<^verbatim>\<open>pool.execute\<close> on this database. Any statement fails while the server is down.
  A SELECT leaves the table as it is; what it returns is the parameter \<open>select\<close>, the
  server's evaluation of the statement on the table.
\<close>

definition mysql_execute ::
  "(jsval \<Rightarrow> 'k \<Rightarrow> bool) \<Rightarrow> (string \<Rightarrow> jsval list \<Rightarrow> 'k entrega list \<Rightarrow> jsval) \<Rightarrow>
     string \<Rightarrow> jsval list \<Rightarrow> 'k database \<Rightarrow> js_error + jsval \<times> 'k database" where
  "mysql_execute same_id select sql params db =
     (if up db then
        if sql = update_sql then
          (case params of
             [flag, name, i] \<Rightarrow>
               Inr (result_header (length (matching same_id i (entregas db))),
                    db\<lparr>entregas := update_rows same_id flag name i (entregas db)\<rparr>)
           | _ \<Rightarrow> Inl DriverError)
        else Inr (select sql params (entregas db), db)
      else Inl DriverError)"

definition mysql_pool ::
  "(jsval \<Rightarrow> 'k \<Rightarrow> bool) \<Rightarrow> (string \<Rightarrow> jsval list \<Rightarrow> 'k entrega list \<Rightarrow> jsval) \<Rightarrow>
     'k database pool" where
  "mysql_pool same_id select =
     \<lparr>getConnection = (\<lambda>db. if up db then None else Some DriverError),
      execute = mysql_execute same_id select\<rparr>"

subsection \<open>A small database for the examples\<close>

text \<open>Keys written as the path writes them, compared as text.\<close>

definition text_id :: "jsval \<Rightarrow> string \<Rightarrow> bool" where
  "text_id p k = (p = JStr k)"

definition delivery :: "string \<Rightarrow> string entrega" where
  "delivery k =
     \<lparr>ID_ENTREGA = k, EMISSAO = JStr ''2024-05-02'', CAIXA = JNum 3, COO = JNum 1810,
      ENTREGUE = JStr ''N'', NOME = JNull\<rparr>"

definition two_deliveries :: "string database" where
  "two_deliveries = \<lparr>up = True, entregas = [delivery ''7'', delivery ''8'']\<rparr>"

text \<open>On a table with no rows every SELECT of the program returns the empty array.\<close>

definition no_deliveries :: "string database" where
  "no_deliveries = \<lparr>up = True, entregas = []\<rparr>"

definition select_nothing :: "string \<Rightarrow> jsval list \<Rightarrow> string entrega list \<Rightarrow> jsval" where
  "select_nothing sql params rows = JArr []"

definition example_pool :: "string database pool" where
  "example_pool = mysql_pool text_id select_nothing"

section \<open>The read handler's statement, in the specification's words\<close>

text \<open>
  The specification describes the SELECT as the always-true base predicate followed,
  for each parameter that is present, by that parameter's clause with its bound
  values: the issuance date from \<^verbatim>\<open>startDate\<close>, the issuance date up to \<^verbatim>\<open>endDate\<close>,
  either point-of-sale column equal to \<^verbatim>\<open>pdv\<close> (bound twice), and the delivered flag
  equal to the uppercased \<^verbatim>\<open>status\<close>. \<open>present\<close> is the reading of ``present'':
  \<open>given\<close> (the parameter occurs in the query string) or \<^const>\<open>truthy\<close> (it occurs
  with a value that is not the empty string).
\<close>

definition given :: "jsval \<Rightarrow> bool" where
  "given v = (v \<noteq> JUndefined)"

fun uppercased :: "jsval \<Rightarrow> jsval" where
  "uppercased (JStr s) = JStr (toUpperCase s)"
| "uppercased v = v"

definition spec_clauses ::
  "(jsval \<Rightarrow> bool) \<Rightarrow> (string \<times> jsval) list \<Rightarrow> (string \<times> jsval list) list" where
  "spec_clauses present q =
     (if present (js_get (JObj q) ''startDate'')
      then [('' AND EMISSAO >= ?'', [js_get (JObj q) ''startDate''])] else [])
     @ (if present (js_get (JObj q) ''endDate'')
        then [('' AND EMISSAO <= ?'', [js_get (JObj q) ''endDate''])] else [])
     @ (if present (js_get (JObj q) ''pdv'')
        then [('' AND (CAIXA = ? OR COO = ?)'', [js_get (JObj q) ''pdv'', js_get (JObj q) ''pdv''])]
        else [])
     @ (if present (js_get (JObj q) ''status'')
        then [('' AND ENTREGUE = ?'', [uppercased (js_get (JObj q) ''status'')])] else [])"

definition spec_sql :: "(jsval \<Rightarrow> bool) \<Rightarrow> (string \<times> jsval) list \<Rightarrow> string" where
  "spec_sql present q =
     ''SELECT * FROM entregas WHERE 1=1'' @ concat (map fst (spec_clauses present q))"

definition spec_params :: "(jsval \<Rightarrow> bool) \<Rightarrow> (string \<times> jsval) list \<Rightarrow> jsval list" where
  "spec_params present q = concat (map snd (spec_clauses present q))"

text \<open>The query without any binding of the parameter \<open>k\<close>.\<close>

definition without :: "string \<Rightarrow> (string \<times> jsval) list \<Rightarrow> (string \<times> jsval) list" where
  "without k q = filter (\<lambda>kv. fst kv \<noteq> k) q"

text \<open>A status the handlers accept: a string whose upper case is \<open>S\<close> or \<open>N\<close>.\<close>

fun status_flag :: "jsval \<Rightarrow> bool" where
  "status_flag (JStr s) = (toUpperCase s = ''S'' \<or> toUpperCase s = ''N'')"
| "status_flag v = False"

text \<open>A deliverer name the update handler accepts: a string with a character that is not white space.\<close>

fun deliverer_name :: "jsval \<Rightarrow> bool" where
  "deliverer_name (JStr n) = (trim n \<noteq> [])"
| "deliverer_name v = False"

text \<open>
  What a statement can do to the delivered flag: a SELECT writes nothing, and the
  UPDATE of the program writes its first bound parameter.
\<close>

definition is_select :: "string \<Rightarrow> bool" where
  "is_select sql = (take 7 sql = ''SELECT '')"

fun flag_safe :: "event \<Rightarrow> bool" where
  "flag_safe (Execute sql params) =
     (is_select sql
      \<or> (sql = update_sql
          \<and> (case params of
                [flag, name, i] \<Rightarrow> flag = JStr ''S'' \<or> flag = JStr ''N''
              | _ \<Rightarrow> False)))"
| "flag_safe e = True"

text \<open>
  A row whose delivered flag is \<open>S\<close> or \<open>N\<close>, and a row after a request: as it
  was, or with such a flag.
\<close>

definition flagged :: "'k entrega \<Rightarrow> bool" where
  "flagged r = (ENTREGUE r = JStr ''S'' \<or> ENTREGUE r = JStr ''N'')"

definition settled :: "'k entrega \<Rightarrow> 'k entrega \<Rightarrow> bool" where
  "settled old new = (new = old \<or> flagged new)"

section \<open>Properties\<close>

lemma toUpperCase_s: "toUpperCase ''s'' = ''S''"
  by (simp add: toUpperCase_def upper_unit_def latin1_lower_def latin1_upper_def)

lemma trim_Maria: "trim ''  Maria  '' = ''Maria''"
  by (simp add: trim_def is_white_def)

lemma toUpperCase_accents:
  "toUpperCase (''stra'' @ [CHR 0xDF, CHR 0xE9, CHR 0xF7]) = ''STRASS'' @ [CHR 0xC9, CHR 0xF7]"
  by (simp add: toUpperCase_def upper_unit_def latin1_lower_def latin1_upper_def)

subsection \<open>What each handler does, case by case\<close>

lemma events_run_select: "events (run_select pool sql ps db) = [Execute sql ps]"
  by (simp add: run_select_def respond_def split: sum.split prod.split)

lemma status_flag_call:
  "status_flag st \<Longrightarrow> \<exists>s. st = JStr s \<and> (toUpperCase s = ''S'' \<or> toUpperCase s = ''N'')"
  by (cases st) auto

lemma deliverer_name_call: "deliverer_name dn \<Longrightarrow> \<exists>n. dn = JStr n \<and> trim n \<noteq> []"
  by (cases dn) auto

lemma js_get_not_nullish: "js_get body k = JStr s \<Longrightarrow> \<not> nullish body"
  by (cases body) auto

lemma get_deliveries_runs:
  assumes "\<not> truthy (js_get (JObj q) ''status'') \<or> status_flag (js_get (JObj q) ''status'')"
  shows "get_deliveries pool q db = run_select pool (spec_sql truthy q) (spec_params truthy q) db"
proof (cases "truthy (js_get (JObj q) ''status'')")
  case False
  then show ?thesis
    by (simp add: get_deliveries_def Let_def spec_sql_def spec_params_def spec_clauses_def)
next
  case True
  with assms obtain s where s: "js_get (JObj q) ''status'' = JStr s"
    and u: "toUpperCase s = ''S'' \<or> toUpperCase s = ''N''"
    using status_flag_call by blast
  from True s u show ?thesis
    by (auto simp add: get_deliveries_def Let_def spec_sql_def spec_params_def spec_clauses_def)
qed

lemma get_rejects_status:
  assumes "js_get (JObj q) ''status'' = JStr s" and "s \<noteq> []"
    and "toUpperCase s \<noteq> ''S''" and "toUpperCase s \<noteq> ''N''"
  shows "get_deliveries pool q db = respond 400 (message invalid_status_filter) [] db"
  using assms by (simp add: get_deliveries_def Let_def split: prod.split)

lemma put_rejects_status:
  assumes "\<not> nullish body"
    and "\<not> truthy (js_get body ''status'')
         \<or> (typeof (js_get body ''status'') = ''string'' \<and> \<not> status_flag (js_get body ''status''))"
  shows "put_delivery_status pool id' body db = respond 400 (message status_required) [] db"
proof (cases "truthy (js_get body ''status'')")
  case False
  with assms(1) show ?thesis by (simp add: put_delivery_status_def Let_def)
next
  case True
  with assms(2) have "typeof (js_get body ''status'') = ''string''"
    and nf: "\<not> status_flag (js_get body ''status'')" by auto
  then obtain s where s: "js_get body ''status'' = JStr s"
    by (cases "js_get body ''status''") auto
  with nf True assms(1) show ?thesis
    by (simp add: put_delivery_status_def Let_def)
qed

lemma put_rejects_name:
  assumes "status_flag (js_get body ''status'')"
    and "\<not> deliverer_name (js_get body ''delivererName'')"
  shows "put_delivery_status pool id' body db = respond 400 (message name_required) [] db"
proof -
  from assms(1) obtain s where s: "js_get body ''status'' = JStr s"
    and u: "toUpperCase s = ''S'' \<or> toUpperCase s = ''N''"
    using status_flag_call by blast
  from s have nn: "\<not> nullish body" by (rule js_get_not_nullish)
  from u have ne: "s \<noteq> []" by (auto simp add: toUpperCase_def)
  show ?thesis
  proof (cases "js_get body ''delivererName''")
    case (JStr n)
    with assms(2) have "trim n = []" by simp
    with JStr s u nn ne show ?thesis
      by (auto simp add: put_delivery_status_def Let_def)
  qed (use s u nn ne in \<open>auto simp add: put_delivery_status_def Let_def\<close>)
qed

lemma put_valid:
  assumes "js_get body ''status'' = JStr s"
    and "toUpperCase s = ''S'' \<or> toUpperCase s = ''N''"
    and "js_get body ''delivererName'' = JStr n"
    and "trim n \<noteq> []"
  shows "put_delivery_status pool id' body db = run_update pool id' (toUpperCase s) (trim n) db"
proof -
  from assms(1) have nn: "\<not> nullish body" by (rule js_get_not_nullish)
  from assms(2) have ne: "s \<noteq> []" by (auto simp add: toUpperCase_def)
  from assms(4) have nne: "n \<noteq> []" by (auto simp add: trim_def)
  from assms nn ne nne show ?thesis
    by (auto simp add: put_delivery_status_def Let_def)
qed

lemma events_run_update:
  "events (run_update pool id' flag name db) = [Execute update_sql [JStr flag, JStr name, JStr id']]"
  by (simp add: run_update_def Let_def respond_def split: sum.split prod.split)

subsection \<open>The statements on the table\<close>

lemma update_rows_none:
  "matching same_id i rows = [] \<Longrightarrow> update_rows same_id flag name i rows = rows"
  by (induction rows) (auto simp add: matching_def update_rows_def split: if_splits)

lemma update_rows_twice:
  "update_rows same_id flag name i (update_rows same_id flag name i rows)
     = update_rows same_id flag name i rows"
  by (induction rows) (auto simp add: update_rows_def)

lemma matching_update_rows:
  "length (matching same_id i (update_rows same_id flag name i rows))
     = length (matching same_id i rows)"
  by (induction rows) (auto simp add: matching_def update_rows_def)

lemma matching_exists:
  "(matching same_id i rows \<noteq> []) = (\<exists>r\<in>set rows. same_id i (ID_ENTREGA r))"
  by (auto simp add: matching_def filter_empty_conv)

lemma settled_update_rows:
  "flag = JStr ''S'' \<or> flag = JStr ''N'' \<Longrightarrow>
     list_all2 settled rows (update_rows same_id flag name i rows)"
  by (induction rows) (auto simp add: update_rows_def settled_def flagged_def)

lemma settled_refl: "list_all2 settled rows rows"
  by (simp add: list_all2_refl settled_def)

lemma settled_flagged:
  "list_all2 settled rows rows' \<Longrightarrow> list_all flagged rows \<Longrightarrow> list_all flagged rows'"
  by (induction rule: list_all2_induct) (auto simp add: settled_def)

lemma run_update_mysql:
  assumes "up db"
  shows "run_update (mysql_pool same_id select) id' flag name db =
     (if matching same_id (JStr id') (entregas db) = [] then
        respond 404 (message (not_found id'))
          [Execute update_sql [JStr flag, JStr name, JStr id']] db
      else
        respond 200 (message (updated id' flag name))
          [Execute update_sql [JStr flag, JStr name, JStr id']]
          (db\<lparr>entregas := update_rows same_id (JStr flag) (JStr name) (JStr id') (entregas db)\<rparr>))"
  using assms
  by (simp add: run_update_def mysql_pool_def mysql_execute_def Let_def result_header_def
      update_rows_none)

lemma run_update_down:
  assumes "\<not> up db"
  shows "run_update (mysql_pool same_id select) id' flag name db =
        respond 500 (message update_failed)
          [Execute update_sql [JStr flag, JStr name, JStr id']] db"
  using assms
  by (simp add: run_update_def mysql_pool_def mysql_execute_def Let_def)

lemma update_not_select: "\<not> is_select update_sql"
  by (simp add: is_select_def update_sql_def)

lemma is_select_not_update: "is_select sql \<Longrightarrow> sql \<noteq> update_sql"
  using update_not_select by blast

lemma run_select_mysql_final:
  "is_select sql \<Longrightarrow> final (run_select (mysql_pool same_id select) sql ps db) = db"
  by (simp add: run_select_def mysql_pool_def mysql_execute_def respond_def is_select_not_update)

lemma is_select_spec_sql: "is_select (spec_sql present q)"
  by (simp add: is_select_def spec_sql_def)

subsection \<open>The ways a request can end\<close>

lemma get_throws:
  assumes "truthy (js_get (JObj q) ''status'')"
    and "call_toUpperCase (js_get (JObj q) ''status'') = Inl e"
  shows "get_deliveries pool q db = throw e [] db"
  using assms by (simp add: get_deliveries_def Let_def split: prod.split)

lemma call_toUpperCase_cases:
  "(\<exists>s. st = JStr s) \<or> call_toUpperCase st = Inl TypeError"
  by (cases st) auto

lemma get_deliveries_cases:
  "get_deliveries pool q db = throw TypeError [] db
   \<or> get_deliveries pool q db = respond 400 (message invalid_status_filter) [] db
   \<or> (\<exists>sql ps. is_select sql \<and> get_deliveries pool q db = run_select pool sql ps db)"
proof (cases "\<not> truthy (js_get (JObj q) ''status'') \<or> status_flag (js_get (JObj q) ''status'')")
  case True
  then have "get_deliveries pool q db
      = run_select pool (spec_sql truthy q) (spec_params truthy q) db"
    by (rule get_deliveries_runs)
  then show ?thesis using is_select_spec_sql by blast
next
  case False
  then have t: "truthy (js_get (JObj q) ''status'')"
    and nf: "\<not> status_flag (js_get (JObj q) ''status'')" by auto
  from call_toUpperCase_cases [of "js_get (JObj q) ''status''"] show ?thesis
  proof
    assume "\<exists>s. js_get (JObj q) ''status'' = JStr s"
    then obtain s where s: "js_get (JObj q) ''status'' = JStr s" ..
    with t nf have "get_deliveries pool q db = respond 400 (message invalid_status_filter) [] db"
      by (intro get_rejects_status) auto
    then show ?thesis by simp
  next
    assume "call_toUpperCase (js_get (JObj q) ''status'') = Inl TypeError"
    with t have "get_deliveries pool q db = throw TypeError [] db" by (rule get_throws)
    then show ?thesis by simp
  qed
qed

lemma put_delivery_status_cases:
  "put_delivery_status pool id' body db = throw TypeError [] db
   \<or> put_delivery_status pool id' body db = respond 400 (message status_required) [] db
   \<or> put_delivery_status pool id' body db = respond 400 (message name_required) [] db
   \<or> (\<exists>flag name. (flag = ''S'' \<or> flag = ''N'')
        \<and> put_delivery_status pool id' body db = run_update pool id' flag name db)"
proof (cases "nullish body")
  case True
  then show ?thesis by (simp add: put_delivery_status_def)
next
  case nn: False
  show ?thesis
  proof (cases "truthy (js_get body ''status'')")
    case False
    with nn show ?thesis by (simp add: put_rejects_status)
  next
    case t: True
    from call_toUpperCase_cases [of "js_get body ''status''"] show ?thesis
    proof
      assume "call_toUpperCase (js_get body ''status'') = Inl TypeError"
      with nn t show ?thesis by (simp add: put_delivery_status_def Let_def)
    next
      assume "\<exists>s. js_get body ''status'' = JStr s"
      then obtain s where s: "js_get body ''status'' = JStr s" ..
      show ?thesis
      proof (cases "status_flag (JStr s)")
        case False
        with nn s show ?thesis by (simp add: put_rejects_status)
      next
        case sf: True
        show ?thesis
        proof (cases "deliverer_name (js_get body ''delivererName'')")
          case False
          with sf s show ?thesis by (simp add: put_rejects_name)
        next
          case True
          then obtain n where n: "js_get body ''delivererName'' = JStr n" and tn: "trim n \<noteq> []"
            using deliverer_name_call by blast
          from sf have u: "toUpperCase s = ''S'' \<or> toUpperCase s = ''N''" by simp
          with s n tn have "put_delivery_status pool id' body db
              = run_update pool id' (toUpperCase s) (trim n) db"
            by (intro put_valid)
          with u show ?thesis by blast
        qed
      qed
    qed
  qed
qed

subsection \<open>The read handler looks at four properties only\<close>

lemma js_get_without:
  "js_get (JObj (without k q)) k' = (if k' = k then JUndefined else js_get (JObj q) k')"
  by (induction q) (auto simp add: without_def)

lemma get_deliveries_depends:
  assumes "\<And>k'. k' \<in> {''startDate'', ''endDate'', ''pdv'', ''status''} \<Longrightarrow>
             js_get (JObj q) k' = js_get (JObj q') k'
             \<or> (\<not> truthy (js_get (JObj q) k') \<and> \<not> truthy (js_get (JObj q') k'))"
  shows "get_deliveries pool q db = get_deliveries pool q' db"
proof -
  have a: "js_get (JObj q) ''startDate'' = js_get (JObj q') ''startDate''
      \<or> (\<not> truthy (js_get (JObj q) ''startDate'') \<and> \<not> truthy (js_get (JObj q') ''startDate''))"
    by (rule assms) simp
  have b: "js_get (JObj q) ''endDate'' = js_get (JObj q') ''endDate''
      \<or> (\<not> truthy (js_get (JObj q) ''endDate'') \<and> \<not> truthy (js_get (JObj q') ''endDate''))"
    by (rule assms) simp
  have c: "js_get (JObj q) ''pdv'' = js_get (JObj q') ''pdv''
      \<or> (\<not> truthy (js_get (JObj q) ''pdv'') \<and> \<not> truthy (js_get (JObj q') ''pdv''))"
    by (rule assms) simp
  have d: "js_get (JObj q) ''status'' = js_get (JObj q') ''status''
      \<or> (\<not> truthy (js_get (JObj q) ''status'') \<and> \<not> truthy (js_get (JObj q') ''status''))"
    by (rule assms) simp
  from a b c d show ?thesis
    unfolding get_deliveries_def Let_def
    by (elim disjE conjE) (simp_all del: js_get.simps)
qed

lemma empty_as_absent:
  assumes "js_get (JObj q) k = JStr ''''"
  shows "get_deliveries pool q db = get_deliveries pool (without k q) db"
proof (rule get_deliveries_depends)
  fix k'
  show "js_get (JObj q) k' = js_get (JObj (without k q)) k'
      \<or> (\<not> truthy (js_get (JObj q) k') \<and> \<not> truthy (js_get (JObj (without k q)) k'))"
    using assms by (cases "k' = k") (simp_all add: js_get_without del: js_get.simps)
qed

subsection \<open>What a request can do to the delivered flag\<close>

lemma get_events_safe: "list_all flag_safe (events (get_deliveries pool q db))"
  using get_deliveries_cases [of pool q db]
  by (auto simp add: throw_def respond_def events_run_select)

lemma put_events_safe: "list_all flag_safe (events (put_delivery_status pool id' body db))"
  using put_delivery_status_cases [of pool id' body db]
  by (auto simp add: throw_def respond_def events_run_update)

lemma route_events_safe:
  "req \<noteq> Unparsable \<Longrightarrow> list_all flag_safe (events (route pool req db))"
  by (cases req) (simp_all add: get_events_safe put_events_safe)

lemma get_final_mysql: "final (get_deliveries (mysql_pool same_id select) q d) = d"
  using get_deliveries_cases [of "mysql_pool same_id select" q d]
  by (auto simp add: throw_def respond_def run_select_mysql_final)

lemma run_update_settled:
  assumes "flag = ''S'' \<or> flag = ''N''"
  shows "list_all2 settled (entregas d)
     (entregas (final (run_update (mysql_pool same_id select) id' flag name d)))"
proof (cases "up d")
  case True
  from assms have "list_all2 settled (entregas d)
      (update_rows same_id (JStr flag) (JStr name) (JStr id') (entregas d))"
    by (intro settled_update_rows) simp
  with True show ?thesis
    by (simp add: run_update_mysql respond_def settled_refl)
next
  case False
  then show ?thesis by (simp add: run_update_down respond_def settled_refl)
qed

lemma put_final_settled:
  "list_all2 settled (entregas d)
     (entregas (final (put_delivery_status (mysql_pool same_id select) id' body d)))"
  using put_delivery_status_cases [of "mysql_pool same_id select" id' body d]
  by (auto simp add: throw_def respond_def settled_refl run_update_settled)

lemma route_final_settled:
  "req \<noteq> Unparsable \<Longrightarrow>
     list_all2 settled (entregas d) (entregas (final (route (mysql_pool same_id select) req d)))"
  by (cases req) (simp_all add: get_final_mysql put_final_settled settled_refl)

lemma app_parsed:
  "req \<noteq> Unparsable \<Longrightarrow> app pool req db = health_check pool (route pool req) db"
  by (cases req) (simp_all add: app_def express_json_def)

lemma app_unparsable:
  "app pool Unparsable db = \<lparr>reply = BodyRejected, events = [], final = db\<rparr>"
  by (simp add: app_def express_json_def)

lemma app_events_safe: "list_all flag_safe (events (app pool req db))"
proof (cases "req = Unparsable")
  case True
  then show ?thesis by (simp add: app_unparsable)
next
  case False
  then show ?thesis
    using route_events_safe [of req pool db]
    by (simp add: app_parsed health_check_def Let_def respond_def split: option.split)
qed

lemma app_final_settled:
  "list_all2 settled (entregas d) (entregas (final (app (mysql_pool same_id select) req d)))"
proof (cases "req = Unparsable")
  case True
  then show ?thesis by (simp add: app_unparsable settled_refl)
next
  case False
  then show ?thesis
    using route_final_settled [of req d same_id select]
    by (simp add: app_parsed health_check_def Let_def respond_def settled_refl
        split: option.split)
qed

subsection \<open>An input that fails a check ends before the database\<close>

lemma put_invalid_stops:
  assumes "\<not> (status_flag (js_get body ''status'') \<and> deliverer_name (js_get body ''delivererName''))"
  shows "put_delivery_status pool id' body db = throw TypeError [] db
   \<or> put_delivery_status pool id' body db = respond 400 (message status_required) [] db
   \<or> put_delivery_status pool id' body db = respond 400 (message name_required) [] db"
proof (cases "nullish body")
  case True
  then show ?thesis by (simp add: put_delivery_status_def)
next
  case nn: False
  show ?thesis
  proof (cases "truthy (js_get body ''status'')")
    case False
    with nn show ?thesis by (simp add: put_rejects_status)
  next
    case t: True
    from call_toUpperCase_cases [of "js_get body ''status''"] show ?thesis
    proof
      assume "call_toUpperCase (js_get body ''status'') = Inl TypeError"
      with nn t show ?thesis by (simp add: put_delivery_status_def Let_def)
    next
      assume "\<exists>s. js_get body ''status'' = JStr s"
      then obtain s where s: "js_get body ''status'' = JStr s" ..
      show ?thesis
      proof (cases "status_flag (JStr s)")
        case False
        with nn s show ?thesis by (simp add: put_rejects_status)
      next
        case True
        with s assms have "\<not> deliverer_name (js_get body ''delivererName'')" by auto
        with True s show ?thesis by (simp add: put_rejects_name)
      qed
    qed
  qed
qed

lemma get_invalid_stops:
  assumes "truthy (js_get (JObj q) ''status'') \<and> \<not> status_flag (js_get (JObj q) ''status'')"
  shows "get_deliveries pool q db = throw TypeError [] db
   \<or> get_deliveries pool q db = respond 400 (message invalid_status_filter) [] db"
proof -
  from assms have t: "truthy (js_get (JObj q) ''status'')"
    and nf: "\<not> status_flag (js_get (JObj q) ''status'')" by auto
  from call_toUpperCase_cases [of "js_get (JObj q) ''status''"] show ?thesis
  proof
    assume "\<exists>s. js_get (JObj q) ''status'' = JStr s"
    then obtain s where s: "js_get (JObj q) ''status'' = JStr s" ..
    with t nf have "get_deliveries pool q db = respond 400 (message invalid_status_filter) [] db"
      by (intro get_rejects_status) auto
    then show ?thesis by simp
  next
    assume "call_toUpperCase (js_get (JObj q) ''status'') = Inl TypeError"
    with t have "get_deliveries pool q db = throw TypeError [] db" by (rule get_throws)
    then show ?thesis by simp
  qed
qed

section \<open>The claims\<close>

subsection \<open>C1: the SELECT of the read handler\<close>

text \<open>
  C1, as amended. For every query object whose \<^verbatim>\<open>status\<close> is either treated as
  absent or a string that is \<open>S\<close> or \<open>N\<close> in either letter case, the read handler
  sends exactly one statement: the SELECT over \<^verbatim>\<open>entregas\<close> whose predicate is
  \<^verbatim>\<open>1=1\<close> followed by the clauses of the parameters that carry a value other than
  the empty string, in the order \<^verbatim>\<open>startDate\<close>, \<^verbatim>\<open>endDate\<close>, \<^verbatim>\<open>pdv\<close>,
  \<^verbatim>\<open>status\<close>, with the values bound in that order, \<^verbatim>\<open>pdv\<close> twice and the status
  in upper case. This covers all sixteen combinations of the four parameters.
\<close>

theorem read_statement:
  assumes "\<not> truthy (js_get (JObj q) ''status'') \<or> status_flag (js_get (JObj q) ''status'')"
  shows "events (get_deliveries pool q db)
           = [Execute (spec_sql truthy q) (spec_params truthy q)]"
  using assms by (simp add: get_deliveries_runs events_run_select)

text \<open>
  All four parameters, one parameter and no parameter, on a table with no rows.
\<close>

theorem read_statement_witness:
  "events (get_deliveries example_pool
       [(''startDate'', JStr ''2024-01-01''), (''endDate'', JStr ''2024-12-31''),
        (''pdv'', JStr ''123''), (''status'', JStr ''s'')] no_deliveries)
     = [Execute
         ''SELECT * FROM entregas WHERE 1=1 AND EMISSAO >= ? AND EMISSAO <= ? AND (CAIXA = ? OR COO = ?) AND ENTREGUE = ?''
         [JStr ''2024-01-01'', JStr ''2024-12-31'', JStr ''123'', JStr ''123'', JStr ''S'']]
   \<and> events (get_deliveries example_pool [(''pdv'', JStr ''123'')] no_deliveries)
     = [Execute ''SELECT * FROM entregas WHERE 1=1 AND (CAIXA = ? OR COO = ?)''
         [JStr ''123'', JStr ''123'']]
   \<and> events (get_deliveries example_pool [] no_deliveries)
     = [Execute ''SELECT * FROM entregas WHERE 1=1'' []]"
  using read_statement [of "[(''startDate'', JStr ''2024-01-01''), (''endDate'', JStr ''2024-12-31''),
        (''pdv'', JStr ''123''), (''status'', JStr ''s'')]" example_pool no_deliveries]
    read_statement [of "[(''pdv'', JStr ''123'')]" example_pool no_deliveries]
    read_statement [of "[]" example_pool no_deliveries]
  by (simp add: spec_sql_def spec_params_def spec_clauses_def toUpperCase_def upper_unit_def latin1_lower_def latin1_upper_def)

text \<open>
  C1 as stated, with ``present'' read as ``occurs in the query string'', fails on
  \<^verbatim>\<open>GET /api/deliveries?startDate=\<close>: the parameter is there, and the statement has
  no clause for it, since \<^verbatim>\<open>if (startDate)\<close> is false for the empty string.
\<close>

theorem read_statement_counterexample:
  "given (js_get (JObj [(''startDate'', JStr '''')]) ''startDate'')
   \<and> events (get_deliveries example_pool [(''startDate'', JStr '''')] no_deliveries)
       = [Execute ''SELECT * FROM entregas WHERE 1=1'' []]
   \<and> events (get_deliveries example_pool [(''startDate'', JStr '''')] no_deliveries)
       \<noteq> [Execute (spec_sql given [(''startDate'', JStr '''')])
            (spec_params given [(''startDate'', JStr '''')])]"
  by (simp add: get_deliveries_def Let_def run_select_def example_pool_def mysql_pool_def
      mysql_execute_def no_deliveries_def respond_def update_sql_def select_nothing_def
      given_def spec_sql_def spec_params_def spec_clauses_def)

subsection \<open>C2: the same update twice\<close>

text \<open>
  C2. On a reachable database with a row for the id, the update with a valid payload
  answers 200; sent again with the same id and payload, on the database the first
  one left, it answers 200 again (the row still matches, so \<^verbatim>\<open>affectedRows\<close> is
  not zero and there is no 404) and leaves the table exactly as the first one left it.
\<close>

theorem update_twice:
  assumes "up db"
    and "js_get body ''status'' = JStr s"
    and "toUpperCase s = ''S'' \<or> toUpperCase s = ''N''"
    and "js_get body ''delivererName'' = JStr n"
    and "trim n \<noteq> []"
    and "\<exists>r\<in>set (entregas db). same_id (JStr id') (ID_ENTREGA r)"
  shows "reply (put_delivery_status (mysql_pool same_id select) id' body db)
           = Responded 200 (message (updated id' (toUpperCase s) (trim n)))
    \<and> reply (put_delivery_status (mysql_pool same_id select) id' body
          (final (put_delivery_status (mysql_pool same_id select) id' body db)))
           = Responded 200 (message (updated id' (toUpperCase s) (trim n)))
    \<and> final (put_delivery_status (mysql_pool same_id select) id' body
          (final (put_delivery_status (mysql_pool same_id select) id' body db)))
           = final (put_delivery_status (mysql_pool same_id select) id' body db)"
proof -
  let ?P = "mysql_pool same_id select"
  let ?db1 = "db\<lparr>entregas := update_rows same_id (JStr (toUpperCase s)) (JStr (trim n))
                 (JStr id') (entregas db)\<rparr>"
  have put: "put_delivery_status ?P id' body d = run_update ?P id' (toUpperCase s) (trim n) d"
    for d using assms(2-5) by (rule put_valid)
  from assms(6) have m: "matching same_id (JStr id') (entregas db) \<noteq> []"
    by (simp add: matching_exists)
  then have "length (matching same_id (JStr id') (entregas ?db1)) \<noteq> 0"
    by (simp add: matching_update_rows)
  then have m1: "matching same_id (JStr id') (entregas ?db1) \<noteq> []" by simp
  from assms(1) have up1: "up ?db1" by simp
  have first: "put_delivery_status ?P id' body db
      = respond 200 (message (updated id' (toUpperCase s) (trim n)))
          [Execute update_sql [JStr (toUpperCase s), JStr (trim n), JStr id']] ?db1"
    using m by (simp add: put run_update_mysql [OF assms(1)])
  have second: "put_delivery_status ?P id' body ?db1
      = respond 200 (message (updated id' (toUpperCase s) (trim n)))
          [Execute update_sql [JStr (toUpperCase s), JStr (trim n), JStr id']] ?db1"
    using m1 by (simp add: put run_update_mysql [OF up1] update_rows_twice)
  have f: "final (put_delivery_status ?P id' body db) = ?db1"
    by (simp add: first respond_def)
  show ?thesis
    unfolding f by (simp add: first second respond_def)
qed

text \<open>Status \<open>s\<close> and name \<open>Maria\<close> with blanks around it, twice on delivery 7.\<close>

theorem update_twice_witness:
  "reply (put_delivery_status example_pool ''7''
       (JObj [(''status'', JStr ''s''), (''delivererName'', JStr ''  Maria  '')]) two_deliveries)
     = Responded 200 (message (updated ''7'' ''S'' ''Maria''))
   \<and> reply (put_delivery_status example_pool ''7''
       (JObj [(''status'', JStr ''s''), (''delivererName'', JStr ''  Maria  '')])
       (final (put_delivery_status example_pool ''7''
          (JObj [(''status'', JStr ''s''), (''delivererName'', JStr ''  Maria  '')]) two_deliveries)))
     = Responded 200 (message (updated ''7'' ''S'' ''Maria''))
   \<and> final (put_delivery_status example_pool ''7''
       (JObj [(''status'', JStr ''s''), (''delivererName'', JStr ''  Maria  '')])
       (final (put_delivery_status example_pool ''7''
          (JObj [(''status'', JStr ''s''), (''delivererName'', JStr ''  Maria  '')]) two_deliveries)))
     = final (put_delivery_status example_pool ''7''
          (JObj [(''status'', JStr ''s''), (''delivererName'', JStr ''  Maria  '')]) two_deliveries)"
  using update_twice [where db = two_deliveries and s = "''s''" and n = "''  Maria  ''"
      and body = "JObj [(''status'', JStr ''s''), (''delivererName'', JStr ''  Maria  '')]"
      and same_id = text_id and id' = "''7''" and select = select_nothing]
  by (simp add: example_pool_def two_deliveries_def delivery_def text_id_def
      toUpperCase_def upper_unit_def latin1_lower_def latin1_upper_def trim_def is_white_def)

subsection \<open>C3: a rejected input never reaches the database\<close>

text \<open>
  C3, as amended. For every update request whose \<^verbatim>\<open>status\<close> is missing or falsy
  (\<^verbatim>\<open>null\<close>, \<^verbatim>\<open>false\<close>, \<open>0\<close>, the empty string) or is a string whose upper case
  is neither \<open>S\<close> nor \<open>N\<close>, the handler answers 400 with the status message; for
  every update request whose \<^verbatim>\<open>status\<close> is a string with upper case \<open>S\<close> or \<open>N\<close>
  and whose \<^verbatim>\<open>delivererName\<close> is missing, of any type other than string, or blank,
  it answers 400 with the name message; for every read request whose \<^verbatim>\<open>status\<close>
  is a string, not empty, whose upper case is neither \<open>S\<close> nor \<open>N\<close>, the handler
  answers 400 with the invalid-status message. For every input that fails a check,
  whatever the type of the offending value (a \<^verbatim>\<open>status\<close> or a \<^verbatim>\<open>delivererName\<close>
  that is not a string, a body that is missing, an array as the \<^verbatim>\<open>status\<close> of a
  read), no statement is sent and the database is as it was. The answer of the
  handler is the answer of the application whenever the health check has passed,
  and then the only pool events before it are the acquisition and the release.
  Which answer a truthy \<^verbatim>\<open>status\<close> that is not a string gets is left out.
\<close>

theorem validation_before_database:
  "(\<not> nullish body
      \<and> (\<not> truthy (js_get body ''status'')
         \<or> typeof (js_get body ''status'') = ''string'' \<and> \<not> status_flag (js_get body ''status''))
     \<longrightarrow> put_delivery_status pool id' body db
         = \<lparr>reply = Responded 400 (message status_required), events = [], final = db\<rparr>)
   \<and> (status_flag (js_get body ''status'') \<and> \<not> deliverer_name (js_get body ''delivererName'')
     \<longrightarrow> put_delivery_status pool id' body db
         = \<lparr>reply = Responded 400 (message name_required), events = [], final = db\<rparr>)
   \<and> (truthy (js_get (JObj q) ''status'') \<and> typeof (js_get (JObj q) ''status'') = ''string''
        \<and> \<not> status_flag (js_get (JObj q) ''status'')
     \<longrightarrow> get_deliveries pool q db
         = \<lparr>reply = Responded 400 (message invalid_status_filter), events = [], final = db\<rparr>)
   \<and> (\<not> (status_flag (js_get body ''status'') \<and> deliverer_name (js_get body ''delivererName''))
     \<longrightarrow> events (put_delivery_status pool id' body db) = []
         \<and> final (put_delivery_status pool id' body db) = db)
   \<and> (truthy (js_get (JObj q) ''status'') \<and> \<not> status_flag (js_get (JObj q) ''status'')
     \<longrightarrow> events (get_deliveries pool q db) = [] \<and> final (get_deliveries pool q db) = db)
   \<and> (getConnection pool db = None
     \<longrightarrow> app pool (Put_delivery_status id' body) db
           = (put_delivery_status pool id' body db)
               \<lparr>events := [GetConnection, Release] @ events (put_delivery_status pool id' body db)\<rparr>
         \<and> app pool (Get_deliveries q) db
           = (get_deliveries pool q db)
               \<lparr>events := [GetConnection, Release] @ events (get_deliveries pool q db)\<rparr>)"
proof (intro conjI impI)
  assume "\<not> nullish body
      \<and> (\<not> truthy (js_get body ''status'')
         \<or> typeof (js_get body ''status'') = ''string'' \<and> \<not> status_flag (js_get body ''status''))"
  then show "put_delivery_status pool id' body db
         = \<lparr>reply = Responded 400 (message status_required), events = [], final = db\<rparr>"
    by (simp add: put_rejects_status respond_def)
next
  assume "status_flag (js_get body ''status'') \<and> \<not> deliverer_name (js_get body ''delivererName'')"
  then show "put_delivery_status pool id' body db
         = \<lparr>reply = Responded 400 (message name_required), events = [], final = db\<rparr>"
    by (simp add: put_rejects_name respond_def)
next
  assume a: "truthy (js_get (JObj q) ''status'') \<and> typeof (js_get (JObj q) ''status'') = ''string''
        \<and> \<not> status_flag (js_get (JObj q) ''status'')"
  then obtain s where s: "js_get (JObj q) ''status'' = JStr s"
    by (cases "js_get (JObj q) ''status''") auto
  with a have "get_deliveries pool q db = respond 400 (message invalid_status_filter) [] db"
    by (intro get_rejects_status) auto
  then show "get_deliveries pool q db
         = \<lparr>reply = Responded 400 (message invalid_status_filter), events = [], final = db\<rparr>"
    by (simp add: respond_def)
next
  assume i: "\<not> (status_flag (js_get body ''status'') \<and> deliverer_name (js_get body ''delivererName''))"
  from put_invalid_stops [OF i, of pool id' db]
  show "events (put_delivery_status pool id' body db) = []"
    by (auto simp add: throw_def respond_def)
  from put_invalid_stops [OF i, of pool id' db]
  show "final (put_delivery_status pool id' body db) = db"
    by (auto simp add: throw_def respond_def)
next
  assume i: "truthy (js_get (JObj q) ''status'') \<and> \<not> status_flag (js_get (JObj q) ''status'')"
  from get_invalid_stops [OF i, of pool db]
  show "events (get_deliveries pool q db) = []"
    by (auto simp add: throw_def respond_def)
  from get_invalid_stops [OF i, of pool db]
  show "final (get_deliveries pool q db) = db"
    by (auto simp add: throw_def respond_def)
next
  assume "getConnection pool db = None"
  then show "app pool (Put_delivery_status id' body) db
           = (put_delivery_status pool id' body db)
               \<lparr>events := [GetConnection, Release] @ events (put_delivery_status pool id' body db)\<rparr>"
    and "app pool (Get_deliveries q) db
           = (get_deliveries pool q db)
               \<lparr>events := [GetConnection, Release] @ events (get_deliveries pool q db)\<rparr>"
    by (simp_all add: app_parsed health_check_def Let_def)
qed

text \<open>
  A missing status, a status that is a word, a name that is a number, a blank name,
  a read filtered by a word; then a status that is \<^verbatim>\<open>true\<close> and a read whose status
  is an array, which send nothing; then the missing status through the whole
  application.
\<close>

theorem validation_before_database_witness:
  "put_delivery_status example_pool ''7'' (JObj [(''delivererName'', JStr ''Maria'')]) two_deliveries
     = \<lparr>reply = Responded 400 (message status_required), events = [], final = two_deliveries\<rparr>
   \<and> put_delivery_status example_pool ''7''
       (JObj [(''status'', JStr ''entregue''), (''delivererName'', JStr ''Maria'')]) two_deliveries
     = \<lparr>reply = Responded 400 (message status_required), events = [], final = two_deliveries\<rparr>
   \<and> put_delivery_status example_pool ''7''
       (JObj [(''status'', JStr ''S''), (''delivererName'', JNum 5)]) two_deliveries
     = \<lparr>reply = Responded 400 (message name_required), events = [], final = two_deliveries\<rparr>
   \<and> put_delivery_status example_pool ''7''
       (JObj [(''status'', JStr ''S''), (''delivererName'', JStr ''   '')]) two_deliveries
     = \<lparr>reply = Responded 400 (message name_required), events = [], final = two_deliveries\<rparr>
   \<and> get_deliveries example_pool [(''status'', JStr ''entregue'')] two_deliveries
     = \<lparr>reply = Responded 400 (message invalid_status_filter), events = [],
        final = two_deliveries\<rparr>
   \<and> events (put_delivery_status example_pool ''7''
       (JObj [(''status'', JBool True), (''delivererName'', JStr ''Maria'')]) two_deliveries) = []
   \<and> final (put_delivery_status example_pool ''7''
       (JObj [(''status'', JBool True), (''delivererName'', JStr ''Maria'')]) two_deliveries)
     = two_deliveries
   \<and> events (get_deliveries example_pool [(''status'', JArr [JStr ''a'', JStr ''b''])]
       two_deliveries) = []
   \<and> app example_pool (Put_delivery_status ''7'' (JObj [(''delivererName'', JStr ''Maria'')]))
       two_deliveries
     = \<lparr>reply = Responded 400 (message status_required), events = [GetConnection, Release],
        final = two_deliveries\<rparr>"
  using validation_before_database [where body = "JObj [(''delivererName'', JStr ''Maria'')]"
      and pool = example_pool and id' = "''7''" and db = two_deliveries and q = "[]"]
    validation_before_database
      [where body = "JObj [(''status'', JStr ''entregue''), (''delivererName'', JStr ''Maria'')]"
      and pool = example_pool and id' = "''7''" and db = two_deliveries and q = "[]"]
    validation_before_database
      [where body = "JObj [(''status'', JStr ''S''), (''delivererName'', JNum 5)]"
      and pool = example_pool and id' = "''7''" and db = two_deliveries
      and q = "[(''status'', JStr ''entregue'')]"]
    validation_before_database
      [where body = "JObj [(''status'', JStr ''S''), (''delivererName'', JStr ''   '')]"
      and pool = example_pool and id' = "''7''" and db = two_deliveries and q = "[]"]
    validation_before_database
      [where body = "JObj [(''status'', JBool True), (''delivererName'', JStr ''Maria'')]"
      and pool = example_pool and id' = "''7''" and db = two_deliveries
      and q = "[(''status'', JArr [JStr ''a'', JStr ''b''])]"]
  by (simp add: toUpperCase_def upper_unit_def latin1_lower_def latin1_upper_def trim_def
      is_white_def example_pool_def mysql_pool_def two_deliveries_def)

text \<open>
  C3 as stated fails on \<^verbatim>\<open>GET /api/deliveries?status=&pdv=3\<close>: the status value is
  neither \<open>S\<close> nor \<open>N\<close>, yet the guard \<^verbatim>\<open>if (status)\<close> skips the validation, the
  SELECT is sent and the answer is 200. It also fails on an update without a status
  while the server is down: the health check answers 500 before the handler can
  answer 400.
\<close>

theorem validation_before_database_counterexample:
  "given (js_get (JObj [(''status'', JStr ''''), (''pdv'', JStr ''3'')]) ''status'')
   \<and> \<not> status_flag (js_get (JObj [(''status'', JStr ''''), (''pdv'', JStr ''3'')]) ''status'')
   \<and> get_deliveries example_pool [(''status'', JStr ''''), (''pdv'', JStr ''3'')] no_deliveries
       = \<lparr>reply = Responded 200 (JArr []),
          events = [Execute ''SELECT * FROM entregas WHERE 1=1 AND (CAIXA = ? OR COO = ?)''
                     [JStr ''3'', JStr ''3'']],
          final = no_deliveries\<rparr>
   \<and> app example_pool (Put_delivery_status ''7'' (JObj [(''delivererName'', JStr ''Maria'')]))
         (two_deliveries\<lparr>up := False\<rparr>)
       = \<lparr>reply = Responded 500 (message connection_failed), events = [GetConnection],
          final = two_deliveries\<lparr>up := False\<rparr>\<rparr>"
  by (simp add: get_deliveries_def Let_def run_select_def example_pool_def mysql_pool_def
      mysql_execute_def no_deliveries_def respond_def update_sql_def select_nothing_def
      given_def toUpperCase_def app_def express_json_def health_check_def)

subsection \<open>C4: the status filter of a read\<close>

text \<open>
  C4, as amended. For every read request whose \<^verbatim>\<open>status\<close> is a string that is not
  empty and whose upper case is neither \<open>S\<close> nor \<open>N\<close>, the handler answers 400 with
  the explanatory message, sends no statement and leaves the database as it was.
\<close>

theorem invalid_status_filter_rejected:
  assumes "js_get (JObj q) ''status'' = JStr s" and "s \<noteq> []"
    and "toUpperCase s \<noteq> ''S''" and "toUpperCase s \<noteq> ''N''"
  shows "get_deliveries pool q db
           = \<lparr>reply = Responded 400 (message invalid_status_filter), events = [], final = db\<rparr>"
  using assms by (simp add: get_rejects_status respond_def)

text \<open>The filter \<^verbatim>\<open>?pdv=3&status=x\<close>.\<close>

theorem invalid_status_filter_rejected_witness:
  "get_deliveries example_pool [(''pdv'', JStr ''3''), (''status'', JStr ''x'')] no_deliveries
     = \<lparr>reply = Responded 400 (message invalid_status_filter), events = [],
        final = no_deliveries\<rparr>"
  using invalid_status_filter_rejected
    [of "[(''pdv'', JStr ''3''), (''status'', JStr ''x'')]" "''x''" example_pool no_deliveries]
  by (simp add: toUpperCase_def upper_unit_def latin1_lower_def latin1_upper_def)

text \<open>
  C4 as stated fails on \<^verbatim>\<open>GET /api/deliveries?status=\<close>: the parameter is present,
  its upper case is the empty string, neither \<open>S\<close> nor \<open>N\<close>, and the handler runs
  the unfiltered SELECT and answers 200.
\<close>

theorem empty_status_filter_counterexample:
  "given (js_get (JObj [(''status'', JStr '''')]) ''status'')
   \<and> uppercased (js_get (JObj [(''status'', JStr '''')]) ''status'') \<noteq> JStr ''S''
   \<and> uppercased (js_get (JObj [(''status'', JStr '''')]) ''status'') \<noteq> JStr ''N''
   \<and> get_deliveries example_pool [(''status'', JStr '''')] no_deliveries
       = \<lparr>reply = Responded 200 (JArr []),
          events = [Execute ''SELECT * FROM entregas WHERE 1=1'' []],
          final = no_deliveries\<rparr>"
  by (simp add: get_deliveries_def Let_def run_select_def example_pool_def mysql_pool_def
      mysql_execute_def no_deliveries_def respond_def update_sql_def select_nothing_def
      given_def toUpperCase_def)

subsection \<open>C5: the order of the two checks\<close>

text \<open>
  C5. The body \<^verbatim>\<open>{"status": true, "delivererName": "  "}\<close> fails both checks of
  the update handler. The first check calls \<^verbatim>\<open>status.toUpperCase()\<close> on a value
  that has no such method (the second check asks \<^verbatim>\<open>typeof delivererName\<close> before
  it calls \<^verbatim>\<open>trim\<close>; the first has no such test), so the handler throws before it
  answers: no 400 with the status message is sent. For a \<^verbatim>\<open>status\<close> that is falsy
  or a string the order is the stated one (\<open>put_rejects_status\<close>,
  \<open>put_rejects_name\<close>).
\<close>

theorem status_not_a_string_throws:
  "put_delivery_status pool id' (JObj [(''status'', JBool True), (''delivererName'', JStr ''  '')]) db
     = \<lparr>reply = Rejected TypeError, events = [], final = db\<rparr>"
  by (simp add: put_delivery_status_def Let_def throw_def)

subsection \<open>C6: the UPDATE of a valid request\<close>

text \<open>
  C6. For every update request that passes both checks, the handler sends exactly one
  statement, the parameterized UPDATE, binding the status in upper case, the name
  trimmed, and the id of the path, in this order; on a reachable database the table
  afterwards is the old one with the flag and the name of the rows of that id set to
  these two values.
\<close>

theorem update_statement:
  assumes "js_get body ''status'' = JStr s"
    and "toUpperCase s = ''S'' \<or> toUpperCase s = ''N''"
    and "js_get body ''delivererName'' = JStr n"
    and "trim n \<noteq> []"
  shows "events (put_delivery_status pool id' body db)
           = [Execute update_sql [JStr (toUpperCase s), JStr (trim n), JStr id']]
    \<and> (up d \<longrightarrow>
         entregas (final (put_delivery_status (mysql_pool same_id select) id' body d))
           = update_rows same_id (JStr (toUpperCase s)) (JStr (trim n)) (JStr id') (entregas d))"
proof -
  have put: "put_delivery_status P id' body x = run_update P id' (toUpperCase s) (trim n) x"
    for P :: "'c pool" and x using assms by (rule put_valid)
  have "entregas (final (run_update (mysql_pool same_id select) id' (toUpperCase s) (trim n) d))
      = update_rows same_id (JStr (toUpperCase s)) (JStr (trim n)) (JStr id') (entregas d)"
    if "up d"
    using that by (simp add: run_update_mysql respond_def update_rows_none)
  then show ?thesis
    by (simp add: put events_run_update)
qed

text \<open>
  Status \<open>s\<close> and name \<open>Maria\<close> with two blanks on each side store \<open>S\<close> and
  \<open>Maria\<close> in delivery 7 and leave delivery 8 alone.
\<close>

theorem update_statement_witness:
  "events (put_delivery_status example_pool ''7''
       (JObj [(''status'', JStr ''s''), (''delivererName'', JStr ''  Maria  '')]) two_deliveries)
     = [Execute ''UPDATE entregas SET ENTREGUE = ?, NOME = ? WHERE ID_ENTREGA = ?''
         [JStr ''S'', JStr ''Maria'', JStr ''7'']]
   \<and> entregas (final (put_delivery_status example_pool ''7''
       (JObj [(''status'', JStr ''s''), (''delivererName'', JStr ''  Maria  '')]) two_deliveries))
     = [(delivery ''7'')\<lparr>ENTREGUE := JStr ''S'', NOME := JStr ''Maria''\<rparr>, delivery ''8'']"
  using update_statement [where s = "''s''" and n = "''  Maria  ''"
      and body = "JObj [(''status'', JStr ''s''), (''delivererName'', JStr ''  Maria  '')]"
      and same_id = text_id and id' = "''7''" and select = select_nothing
      and pool = example_pool and db = two_deliveries and d = two_deliveries]
  by (simp add: example_pool_def two_deliveries_def delivery_def text_id_def update_sql_def
      update_rows_def toUpperCase_def upper_unit_def latin1_lower_def latin1_upper_def trim_def is_white_def)

subsection \<open>C7: not found, or updated\<close>

text \<open>
  C7. For every update request that passes both checks: whenever the driver resolves
  the UPDATE with a result whose \<^verbatim>\<open>affectedRows\<close> is zero, the answer is 404 with
  the message \<^verbatim>\<open>Entrega com ID ${id} ...\<close>, which carries the id of the path; for
  any other result it is 200 with the message
  \<^verbatim>\<open>Status da entrega ${id} atualizado para "${status}" e entregador definido como "${name}".\<close>
  with the status in upper case and the name trimmed. On the modelled database, an
  UPDATE that matches no row answers 404 and leaves the database exactly as it was,
  and one that matches a row answers 200.
\<close>

theorem update_result:
  assumes "js_get body ''status'' = JStr s"
    and "toUpperCase s = ''S'' \<or> toUpperCase s = ''N''"
    and "js_get body ''delivererName'' = JStr n"
    and "trim n \<noteq> []"
  shows "(execute pool update_sql [JStr (toUpperCase s), JStr (trim n), JStr id'] db
            = Inr (result, db') \<and> \<not> nullish result \<longrightarrow>
          put_delivery_status pool id' body db =
            \<lparr>reply =
               (if js_get result ''affectedRows'' = JNum 0 then
                  Responded 404 (JObj [(''message'',
                    JStr (''Entrega com ID '' @ id' @ '' n'' @ [CHR 0xE3] @ ''o encontrada.''))])
                else
                  Responded 200 (JObj [(''message'',
                    JStr (''Status da entrega '' @ id' @ '' atualizado para '' @ [CHR 0x22]
                      @ toUpperCase s @ [CHR 0x22] @ '' e entregador definido como ''
                      @ [CHR 0x22] @ trim n @ [CHR 0x22] @ ''.''))])),
             events = [Execute update_sql [JStr (toUpperCase s), JStr (trim n), JStr id']],
             final = db'\<rparr>)
    \<and> (up d \<and> matching same_id (JStr id') (entregas d) = [] \<longrightarrow>
          put_delivery_status (mysql_pool same_id select) id' body d =
            \<lparr>reply = Responded 404 (JObj [(''message'',
                    JStr (''Entrega com ID '' @ id' @ '' n'' @ [CHR 0xE3] @ ''o encontrada.''))]),
             events = [Execute update_sql [JStr (toUpperCase s), JStr (trim n), JStr id']],
             final = d\<rparr>)
    \<and> (up d \<and> matching same_id (JStr id') (entregas d) \<noteq> [] \<longrightarrow>
          put_delivery_status (mysql_pool same_id select) id' body d =
            \<lparr>reply = Responded 200 (JObj [(''message'',
                    JStr (''Status da entrega '' @ id' @ '' atualizado para '' @ [CHR 0x22]
                      @ toUpperCase s @ [CHR 0x22] @ '' e entregador definido como ''
                      @ [CHR 0x22] @ trim n @ [CHR 0x22] @ ''.''))]),
             events = [Execute update_sql [JStr (toUpperCase s), JStr (trim n), JStr id']],
             final = d\<lparr>entregas := update_rows same_id (JStr (toUpperCase s)) (JStr (trim n))
                       (JStr id') (entregas d)\<rparr>\<rparr>)"
proof -
  have put: "put_delivery_status P id' body x = run_update P id' (toUpperCase s) (trim n) x"
    for P :: "'c pool" and x using assms by (rule put_valid)
  show ?thesis
    by (simp add: put run_update_mysql respond_def message_def not_found_def updated_def)
      (simp add: run_update_def Let_def respond_def message_def not_found_def updated_def)
qed

text \<open>
  The id 999999, which no row has, and the id 8, with status \<open>s\<close> and name \<open>Maria\<close>
  between blanks.
\<close>

theorem update_result_witness:
  "put_delivery_status example_pool ''999999''
       (JObj [(''status'', JStr ''s''), (''delivererName'', JStr ''  Maria  '')]) two_deliveries
     = \<lparr>reply = Responded 404 (JObj [(''message'',
          JStr (''Entrega com ID 999999 n'' @ [CHR 0xE3] @ ''o encontrada.''))]),
        events = [Execute ''UPDATE entregas SET ENTREGUE = ?, NOME = ? WHERE ID_ENTREGA = ?''
                   [JStr ''S'', JStr ''Maria'', JStr ''999999'']],
        final = two_deliveries\<rparr>
   \<and> put_delivery_status example_pool ''8''
       (JObj [(''status'', JStr ''s''), (''delivererName'', JStr ''  Maria  '')]) two_deliveries
     = \<lparr>reply = Responded 200 (JObj [(''message'',
          JStr (''Status da entrega 8 atualizado para '' @ [CHR 0x22] @ ''S'' @ [CHR 0x22]
            @ '' e entregador definido como '' @ [CHR 0x22] @ ''Maria'' @ [CHR 0x22] @ ''.''))]),
        events = [Execute ''UPDATE entregas SET ENTREGUE = ?, NOME = ? WHERE ID_ENTREGA = ?''
                   [JStr ''S'', JStr ''Maria'', JStr ''8'']],
        final = \<lparr>up = True, entregas =
          [delivery ''7'', (delivery ''8'')\<lparr>ENTREGUE := JStr ''S'', NOME := JStr ''Maria''\<rparr>]\<rparr>\<rparr>"
  using update_result [where s = "''s''" and n = "''  Maria  ''"
      and body = "JObj [(''status'', JStr ''s''), (''delivererName'', JStr ''  Maria  '')]"
      and same_id = text_id and id' = "''999999''" and select = select_nothing
      and pool = example_pool and db = two_deliveries and d = two_deliveries
      and result = "JObj [(''affectedRows'', JNum 0)]" and db' = two_deliveries]
    update_result [where s = "''s''" and n = "''  Maria  ''"
      and body = "JObj [(''status'', JStr ''s''), (''delivererName'', JStr ''  Maria  '')]"
      and same_id = text_id and id' = "''8''" and select = select_nothing
      and pool = example_pool and db = two_deliveries and d = two_deliveries
      and result = "JObj [(''affectedRows'', JNum 1)]"
      and db' = "\<lparr>up = True, entregas =
          [delivery ''7'', (delivery ''8'')\<lparr>ENTREGUE := JStr ''S'', NOME := JStr ''Maria''\<rparr>]\<rparr>"]
  by (simp add: example_pool_def two_deliveries_def delivery_def text_id_def
      update_rows_def matching_def mysql_pool_def mysql_execute_def update_sql_def
      result_header_def
      toUpperCase_def upper_unit_def latin1_lower_def latin1_upper_def trim_def is_white_def)

subsection \<open>C8: the health check comes first\<close>

text \<open>
  C8, as amended. For every request that gets past the body parser registered before
  it, the health check runs before the route handler. When the pool hands out a
  connection, the middleware releases it and only then runs the rest of the chain:
  the outcome is the handler's, after the two pool events. When the acquisition
  fails, the answer is the 500 of the middleware whatever the rest of the chain is,
  so the handler is not run: no statement is sent and the database is untouched.
  This holds for every route, reads included, and for a request without a route.
  A request whose body the parser refuses is answered by the parser: the health
  check does not run.
\<close>

theorem health_check_first:
  "(getConnection pool db = None \<longrightarrow>
      health_check pool handler db
          = (handler db)\<lparr>events := [GetConnection, Release] @ events (handler db)\<rparr>
      \<and> (req \<noteq> Unparsable \<longrightarrow>
          app pool req db
            = (route pool req db)\<lparr>events := [GetConnection, Release] @ events (route pool req db)\<rparr>))
   \<and> (getConnection pool db = Some err \<longrightarrow>
      health_check pool handler db
          = \<lparr>reply = Responded 500 (message connection_failed), events = [GetConnection],
             final = db\<rparr>
      \<and> (req \<noteq> Unparsable \<longrightarrow>
          app pool req db
            = \<lparr>reply = Responded 500 (message connection_failed), events = [GetConnection],
               final = db\<rparr>))
   \<and> app pool Unparsable db = \<lparr>reply = BodyRejected, events = [], final = db\<rparr>"
  by (simp add: app_parsed app_unparsable health_check_def Let_def respond_def)

text \<open>
  A read on a reachable database, the same read with the server down, and an update
  with the server down.
\<close>

theorem health_check_first_witness:
  "app example_pool (Get_deliveries [(''status'', JStr ''n'')]) no_deliveries
     = \<lparr>reply = Responded 200 (JArr []),
        events = [GetConnection, Release,
                  Execute ''SELECT * FROM entregas WHERE 1=1 AND ENTREGUE = ?'' [JStr ''N'']],
        final = no_deliveries\<rparr>
   \<and> app example_pool (Get_deliveries [(''status'', JStr ''n'')]) (no_deliveries\<lparr>up := False\<rparr>)
     = \<lparr>reply = Responded 500 (message connection_failed), events = [GetConnection],
        final = no_deliveries\<lparr>up := False\<rparr>\<rparr>
   \<and> app example_pool
       (Put_delivery_status ''7'' (JObj [(''status'', JStr ''S''), (''delivererName'', JStr ''Ana'')]))
       (two_deliveries\<lparr>up := False\<rparr>)
     = \<lparr>reply = Responded 500 (message connection_failed), events = [GetConnection],
        final = two_deliveries\<lparr>up := False\<rparr>\<rparr>"
  using health_check_first [where pool = example_pool and db = no_deliveries
      and req = "Get_deliveries [(''status'', JStr ''n'')]"
      and handler = "route example_pool (Get_deliveries [(''status'', JStr ''n'')])"]
    health_check_first [where pool = example_pool and db = "no_deliveries\<lparr>up := False\<rparr>"
      and req = "Get_deliveries [(''status'', JStr ''n'')]" and err = DriverError
      and handler = "route example_pool (Get_deliveries [(''status'', JStr ''n'')])"]
    health_check_first [where pool = example_pool and db = "two_deliveries\<lparr>up := False\<rparr>"
      and req = "Put_delivery_status ''7''
          (JObj [(''status'', JStr ''S''), (''delivererName'', JStr ''Ana'')])"
      and err = DriverError
      and handler = "route example_pool (Put_delivery_status ''7''
          (JObj [(''status'', JStr ''S''), (''delivererName'', JStr ''Ana'')]))"]
  by (simp add: example_pool_def mysql_pool_def no_deliveries_def two_deliveries_def
      get_deliveries_def Let_def
      run_select_def mysql_execute_def update_sql_def select_nothing_def respond_def
      toUpperCase_def upper_unit_def latin1_lower_def latin1_upper_def)

text \<open>
  C8 as stated, for every incoming request, fails on a request whose body is not
  JSON while the server is down: \<^verbatim>\<open>express.json()\<close>, registered on line 14 before
  the health check, ends the request; no connection is asked for and the answer is the
  parser's, not the 500 of the middleware.
\<close>

theorem health_check_first_counterexample:
  "getConnection example_pool (no_deliveries\<lparr>up := False\<rparr>) = Some DriverError
   \<and> app example_pool Unparsable (no_deliveries\<lparr>up := False\<rparr>)
       = \<lparr>reply = BodyRejected, events = [], final = no_deliveries\<lparr>up := False\<rparr>\<rparr>"
  by (simp add: app_def express_json_def example_pool_def mysql_pool_def no_deliveries_def)

subsection \<open>C9: the delivered flag is S or N\<close>

text \<open>
  C9. Whatever the request and whatever the pool, every statement the application
  sends is a SELECT or the UPDATE with \<open>S\<close> or \<open>N\<close> bound to the delivered flag.
  On the modelled database, every row after a request is the row as it was or has
  its flag equal to \<open>S\<close> or \<open>N\<close>; hence a table whose flags are all \<open>S\<close> or \<open>N\<close>
  stays so.
\<close>

theorem flag_is_S_or_N:
  "list_all flag_safe (events (app pool req db))
   \<and> list_all2 settled (entregas d) (entregas (final (app (mysql_pool same_id select) req d)))
   \<and> (list_all flagged (entregas d)
        \<longrightarrow> list_all flagged (entregas (final (app (mysql_pool same_id select) req d))))"
proof (intro conjI impI)
  show "list_all flag_safe (events (app pool req db))"
    by (rule app_events_safe)
  show s: "list_all2 settled (entregas d)
      (entregas (final (app (mysql_pool same_id select) req d)))"
    by (rule app_final_settled)
  assume "list_all flagged (entregas d)"
  with s show "list_all flagged (entregas (final (app (mysql_pool same_id select) req d)))"
    by (rule settled_flagged)
qed

text \<open>An update of delivery 7 with status \<open>n\<close>.\<close>

theorem flag_is_S_or_N_witness:
  "list_all flag_safe (events (app example_pool (Put_delivery_status ''7''
       (JObj [(''status'', JStr ''n''), (''delivererName'', JStr ''Ana'')])) two_deliveries))
   \<and> list_all2 settled (entregas two_deliveries)
       (entregas (final (app example_pool (Put_delivery_status ''7''
          (JObj [(''status'', JStr ''n''), (''delivererName'', JStr ''Ana'')])) two_deliveries)))
   \<and> list_all flagged (entregas (final (app example_pool (Put_delivery_status ''7''
          (JObj [(''status'', JStr ''n''), (''delivererName'', JStr ''Ana'')])) two_deliveries)))
   \<and> events (app example_pool (Put_delivery_status ''7''
       (JObj [(''status'', JStr ''n''), (''delivererName'', JStr ''Ana'')])) two_deliveries)
     = [GetConnection, Release, Execute update_sql [JStr ''N'', JStr ''Ana'', JStr ''7'']]"
  using flag_is_S_or_N [where pool = example_pool and db = two_deliveries and d = two_deliveries
      and same_id = text_id and select = select_nothing
      and req = "Put_delivery_status ''7''
          (JObj [(''status'', JStr ''n''), (''delivererName'', JStr ''Ana'')])"]
  by (simp add: example_pool_def app_def express_json_def health_check_def mysql_pool_def two_deliveries_def
      put_delivery_status_def Let_def run_update_def mysql_execute_def result_header_def
      respond_def matching_def delivery_def text_id_def flagged_def
      toUpperCase_def upper_unit_def latin1_lower_def latin1_upper_def trim_def is_white_def)

subsection \<open>C10: an empty parameter is no parameter\<close>

text \<open>
  C10. When one of \<^verbatim>\<open>startDate\<close>, \<^verbatim>\<open>endDate\<close>, \<^verbatim>\<open>pdv\<close>, \<^verbatim>\<open>status\<close> is bound
  to the empty string, the read handler does exactly what it does on the query
  without that parameter. For \<^verbatim>\<open>status\<close> this means no validation: when the
  driver resolves the SELECT, which has no status clause, the answer is 200 with
  its rows.
\<close>

theorem empty_parameter_is_absent:
  assumes "k \<in> {''startDate'', ''endDate'', ''pdv'', ''status''}"
    and "js_get (JObj q) k = JStr ''''"
  shows "get_deliveries pool q db = get_deliveries pool (without k q) db
    \<and> (k = ''status'' \<and>
         execute pool (spec_sql truthy (without k q)) (spec_params truthy (without k q)) db
           = Inr (rows, db')
       \<longrightarrow> get_deliveries pool q db
           = \<lparr>reply = Responded 200 rows,
              events = [Execute (spec_sql truthy (without k q)) (spec_params truthy (without k q))],
              final = db'\<rparr>)"
proof -
  have eq: "get_deliveries pool q db = get_deliveries pool (without k q) db"
    using assms(2) by (rule empty_as_absent)
  have "\<not> truthy (js_get (JObj (without k q)) ''status'')" if "k = ''status''"
    using that by (simp add: js_get_without del: js_get.simps)
  then have "get_deliveries pool (without k q) db
      = run_select pool (spec_sql truthy (without k q)) (spec_params truthy (without k q)) db"
    if "k = ''status''"
    using that by (intro get_deliveries_runs) blast
  with eq show ?thesis
    by (auto simp add: run_select_def respond_def)
qed

text \<open>The query \<^verbatim>\<open>?status=&pdv=3\<close> against \<^verbatim>\<open>?pdv=3\<close>.\<close>

theorem empty_parameter_is_absent_witness:
  "get_deliveries example_pool [(''status'', JStr ''''), (''pdv'', JStr ''3'')] no_deliveries
     = get_deliveries example_pool [(''pdv'', JStr ''3'')] no_deliveries
   \<and> get_deliveries example_pool [(''status'', JStr ''''), (''pdv'', JStr ''3'')] no_deliveries
     = \<lparr>reply = Responded 200 (JArr []),
        events = [Execute ''SELECT * FROM entregas WHERE 1=1 AND (CAIXA = ? OR COO = ?)''
                   [JStr ''3'', JStr ''3'']],
        final = no_deliveries\<rparr>"
  using empty_parameter_is_absent [where k = "''status''"
      and q = "[(''status'', JStr ''''), (''pdv'', JStr ''3'')]" and pool = example_pool
      and rows = "JArr []" and db = no_deliveries and db' = no_deliveries]
  by (auto simp add: without_def spec_sql_def spec_params_def spec_clauses_def example_pool_def
      mysql_pool_def mysql_execute_def no_deliveries_def update_sql_def select_nothing_def)

end
